theory Spec2Isabelle
  imports Complex_Main "HOL-Library.Word"
begin

section \<open>JSON documents as the firmware sees them\<close>

text \<open>
  The firmware exchanges Arduino \<open>String\<close>s over the mesh and the broker and reads them
  through ArduinoJson documents. A document is modelled by its value. Every document of
  the firmware is a \<open>StaticJsonDocument\<close> of a fixed capacity in bytes, and the firmware
  never looks at the result of adding to one: what does not fit is left out silently.
  Node identifiers and sequence numbers are \<open>uint32_t\<close>.
\<close>

type_synonym uint32_t = "32 word"

datatype json =
    JNull
  | JBool bool
  | JInt int
  | JFloat real
  | JStr string
  | JArr "json list"
  | JObj "(string \<times> json) list"

text \<open>
  The ArduinoJson library is not part of the firmware sources; what the firmware uses of
  it is a parameter of the model: the text codec (\<open>deserializeJson\<close>, which takes the
  capacity of the document it fills and yields \<open>None\<close> for every \<open>DeserializationError\<close>
  other than \<open>Ok\<close>, and \<open>serializeJson\<close>), the string-to-number coercion of
  \<open>as<uint32_t>()\<close> on a string value, and the accounting of the memory pool: the bytes a
  document holds (\<open>memoryUsage()\<close>) and the bytes one more array element takes.
\<close>

record jsonlib =
  deserializeJson :: "nat \<Rightarrow> string \<Rightarrow> json option"
  serializeJson :: "json \<Rightarrow> string"
  parseNumber :: "string \<Rightarrow> uint32_t"
  memoryUsage :: "json \<Rightarrow> nat"
  slotSize :: nat

text \<open>Whether a document of the given capacity can take one more array element.\<close>

definition has_room :: "jsonlib \<Rightarrow> nat \<Rightarrow> json \<Rightarrow> bool" where
  "has_room lib capacity doc = (memoryUsage lib doc + slotSize lib \<le> capacity)"

text \<open>\<open>doc[key]\<close>: the first member with that key; null when the root is not an object.\<close>

definition getMember :: "json \<Rightarrow> string \<Rightarrow> json option" where
  "getMember doc key = (case doc of JObj kvs \<Rightarrow> map_of kvs key | _ \<Rightarrow> None)"

text \<open>\<open>const char* s = doc[key]\<close>: the string, or \<open>nullptr\<close> for anything else.\<close>

definition as_cstr :: "json option \<Rightarrow> string option" where
  "as_cstr v = (case v of Some (JStr s) \<Rightarrow> Some s | _ \<Rightarrow> None)"

text \<open>\<open>v.as<uint32_t>()\<close>: 0 for a missing member and for a number out of range.\<close>

definition as_uint32 :: "jsonlib \<Rightarrow> json option \<Rightarrow> uint32_t" where
  "as_uint32 lib v =
     (case v of
        Some (JBool b) \<Rightarrow> (if b then 1 else 0)
      | Some (JInt n) \<Rightarrow> (if 0 \<le> n \<and> n < 2 ^ 32 then word_of_int n else 0)
      | Some (JFloat r) \<Rightarrow> (if 0 \<le> r \<and> r \<le> 4294967295 then word_of_int \<lfloor>r\<rfloor> else 0)
      | Some (JStr s) \<Rightarrow> parseNumber lib s
      | _ \<Rightarrow> 0)"

text \<open>
  \<open>uint32_t x = v | 0\<close>: the value when it is an integer that fits \<open>int\<close>, converted to
  \<open>uint32_t\<close>; the default 0 otherwise.
\<close>

definition or_zero :: "json option \<Rightarrow> uint32_t" where
  "or_zero v =
     (case v of
        Some (JInt n) \<Rightarrow> (if - (2 ^ 31) \<le> n \<and> n < 2 ^ 31 then word_of_int n else 0)
      | _ \<Rightarrow> 0)"

text \<open>\<open>v.as<JsonArray>()\<close>: the elements, or the null array.\<close>

definition as_JsonArray :: "json option \<Rightarrow> json list option" where
  "as_JsonArray v = (case v of Some (JArr xs) \<Rightarrow> Some xs | _ \<Rightarrow> None)"

text \<open>Storing a \<open>uint32_t\<close> in a document.\<close>

definition of_uint32 :: "uint32_t \<Rightarrow> json" where
  "of_uint32 w = JInt (uint w)"

text \<open>
  \<open>doc[key].as<JsonArray>().add(x)\<close>, its result ignored, on a document of the given
  capacity. It works in place on the member found by \<open>doc[key]\<close>. Nothing happens when
  that member is missing or is not an array (the array is null), and nothing happens when
  the document has no room left.
\<close>

fun array_add :: "string \<Rightarrow> json \<Rightarrow> (string \<times> json) list \<Rightarrow> (string \<times> json) list" where
  "array_add key x [] = []"
| "array_add key x ((k, v) # kvs) =
     (if k = key then (k, (case v of JArr xs \<Rightarrow> JArr (xs @ [x]) | _ \<Rightarrow> v)) # kvs
      else (k, v) # array_add key x kvs)"

definition member_array_add :: "jsonlib \<Rightarrow> nat \<Rightarrow> string \<Rightarrow> json \<Rightarrow> json \<Rightarrow> json" where
  "member_array_add lib capacity key x doc =
     (case doc of
        JObj kvs \<Rightarrow> if has_room lib capacity doc then JObj (array_add key x kvs) else doc
      | _ \<Rightarrow> doc)"

text \<open>
  \<open>s.c_str()\<close> handed to a function that takes a C string, and \<open>strcmp(a, b) == 0\<close>:
  a C string ends at the first NUL.
\<close>

definition c_str :: "string \<Rightarrow> string" where
  "c_str s = takeWhile (\<lambda>c. c \<noteq> CHR 0x00) s"

definition strcmp0 :: "string \<Rightarrow> string \<Rightarrow> bool" where
  "strcmp0 a b = (c_str a = c_str b)"

section \<open>Effects\<close>

text \<open>
  A callback returns the calls it makes on its collaborators, in order. The payload of a
  mesh message is a document while the handler still holds it as one, and a \<open>String\<close>
  once serialised. \<open>Serial\<close> output is recorded by the tag of the line; its arguments are
  not rendered.
\<close>

datatype 'p effect =
    SendSingle uint32_t 'p
  | SendBroadcast 'p
  | Publish string string
  | Subscribe string
  | Connect bool
  | Delay nat
  | Serial string

fun is_mesh_send :: "'p effect \<Rightarrow> bool" where
  "is_mesh_send (SendSingle dest msg) = True"
| "is_mesh_send (SendBroadcast msg) = True"
| "is_mesh_send e = False"

definition mesh_sends :: "'p effect list \<Rightarrow> 'p effect list" where
  "mesh_sends es = filter is_mesh_send es"



section \<open>Sensor nodes\<close>

text \<open>What a node reads from painlessMesh: \<open>mesh.getNodeId()\<close> and \<open>mesh.getNodeList()\<close>.\<close>

record mesh =
  getNodeId :: uint32_t
  getNodeList :: "uint32_t list"

text \<open>The PONG: three scalar members in a \<open>StaticJsonDocument<128>\<close>.\<close>

definition pong_doc :: "uint32_t \<Rightarrow> uint32_t \<Rightarrow> json" where
  "pong_doc seq myId =
     JObj [(''type'', JStr ''PONG''), (''seq'', of_uint32 seq), (''from'', of_uint32 myId)]"

text \<open>
  The TOPO: the type and an array that \<open>for (auto id : list) arr.add(id)\<close> fills, in a
  \<open>StaticJsonDocument<256>\<close>.
\<close>

definition topo_doc :: "jsonlib \<Rightarrow> uint32_t list \<Rightarrow> json" where
  "topo_doc lib list =
     foldl (\<lambda>topo id. member_array_add lib 256 ''neighbors'' (of_uint32 id) topo)
       (JObj [(''type'', JStr ''TOPO''), (''neighbors'', JArr [])]) list"

text \<open>
  The TRACE_REPLY: type, \<open>seq\<close>, \<open>from\<close> and an array that
  \<open>for (uint32_t hop : hops) replyHops.add(hop)\<close> fills one hop at a time, each read as
  \<open>uint32_t\<close>, in a \<open>StaticJsonDocument<384>\<close>. A null \<open>hops\<close> has no elements.
\<close>

definition trace_reply_doc :: "jsonlib \<Rightarrow> uint32_t \<Rightarrow> uint32_t \<Rightarrow> json list option \<Rightarrow> json" where
  "trace_reply_doc lib seq myId hops =
     foldl (\<lambda>reply hop.
              member_array_add lib 384 ''hops'' (of_uint32 (as_uint32 lib (Some hop))) reply)
       (JObj [(''type'', JStr ''TRACE_REPLY''), (''seq'', of_uint32 seq),
              (''from'', of_uint32 myId), (''hops'', JArr [])])
       (case hops of None \<Rightarrow> [] | Some xs \<Rightarrow> xs)"

text \<open>
  The \<open>TRACE\<close> branch, the same in both node firmwares. The received document is a
  \<open>StaticJsonDocument<512>\<close>.
\<close>

definition on_trace :: "jsonlib \<Rightarrow> mesh \<Rightarrow> json \<Rightarrow> json effect list" where
  "on_trace lib m doc =
     (let to = as_uint32 lib (getMember doc ''to'');
          seq = as_uint32 lib (getMember doc ''seq'');
          originator = as_uint32 lib (getMember doc ''from'');
          myId = getNodeId m;
          doc' = member_array_add lib 512 ''hops'' (of_uint32 myId) doc;
          hops = as_JsonArray (getMember doc' ''hops'')
      in if to = myId
         then [SendSingle originator (trace_reply_doc lib seq myId hops),
               Serial ''[TRACE] Destino alcanzado'']
         else [SendSingle to doc', Serial ''[TRACE] Reenviado''])"

text \<open>
  The light node (NODO_LUZ): what \<open>receivedCallback\<close> does with a message that
  deserialised, up to the \<open>serializeJson\<close> of each document it sends.
\<close>

definition control_luz :: "jsonlib \<Rightarrow> mesh \<Rightarrow> json \<Rightarrow> json effect list" where
  "control_luz lib m doc =
     Serial ''[DEBUG] type'' #
     (case as_cstr (getMember doc ''type'') of
        None \<Rightarrow> [Serial ''[INFO] Mensaje no de control'']
      | Some type \<Rightarrow>
          if strcmp0 type ''PING'' then
            (let to = as_uint32 lib (getMember doc ''to'');
                 seq = as_uint32 lib (getMember doc ''seq'');
                 requester = as_uint32 lib (getMember doc ''from'');
                 myId = getNodeId m
             in if to = myId
                then [SendSingle requester (pong_doc seq myId), Serial ''[PING] PONG enviado'']
                else [Serial ''[PING] Ignorado''])
          else if strcmp0 type ''TOPO_REQ'' then
            (let requester = or_zero (getMember doc ''from'');
                 list = getNodeList m
             in [SendSingle requester (topo_doc lib list), Serial ''[TOPO_REQ] TOPO enviado''])
          else if strcmp0 type ''PONG'' then [Serial ''[PONG] Recibido'']
          else if strcmp0 type ''TRACE'' then on_trace lib m doc
          else [Serial ''[INFO] Mensaje no de control''])"

definition receivedCallback_luz :: "jsonlib \<Rightarrow> mesh \<Rightarrow> uint32_t \<Rightarrow> string \<Rightarrow> string effect list" where
  "receivedCallback_luz lib m from msg =
     [Serial ''[RX]'', Serial ''[DEBUG] DeserializationError''] @
     (case deserializeJson lib 512 msg of
        None \<Rightarrow> [Serial ''[INFO] Mensaje no de control'']
      | Some doc \<Rightarrow> map (map_effect (serializeJson lib)) (control_luz lib m doc))"

text \<open>The temperature node (DHT22), split the same way.\<close>

definition control_dht :: "jsonlib \<Rightarrow> mesh \<Rightarrow> json \<Rightarrow> json effect list" where
  "control_dht lib m doc =
     (case as_cstr (getMember doc ''type'') of
        None \<Rightarrow> [Serial ''[INFO] Mensaje no de control'']
      | Some type \<Rightarrow>
          if strcmp0 type ''PING'' then
            (let to = as_uint32 lib (getMember doc ''to'');
                 seq = as_uint32 lib (getMember doc ''seq'');
                 requester = as_uint32 lib (getMember doc ''from'');
                 myId = getNodeId m
             in if to = myId
                then [SendSingle requester (pong_doc seq myId), Serial ''[PING] PONG enviado'']
                else [])
          else if strcmp0 type ''TOPO_REQ'' then
            (let requester = as_uint32 lib (getMember doc ''from'');
                 list = getNodeList m
             in [SendSingle requester (topo_doc lib list), Serial ''[TOPO_REQ] TOPO enviado''])
          else if strcmp0 type ''PONG'' then [Serial ''[PONG] Recibido'']
          else if strcmp0 type ''TRACE'' then on_trace lib m doc
          else [Serial ''[INFO] Mensaje no de control''])"

definition receivedCallback_dht :: "jsonlib \<Rightarrow> mesh \<Rightarrow> uint32_t \<Rightarrow> string \<Rightarrow> string effect list" where
  "receivedCallback_dht lib m from msg =
     Serial ''[RX]'' #
     (case deserializeJson lib 512 msg of
        None \<Rightarrow> [Serial ''[INFO] Mensaje no de control'']
      | Some doc \<Rightarrow> map (map_effect (serializeJson lib)) (control_dht lib m doc))"

subsection \<open>Envelopes\<close>

text \<open>
  The firmware has no envelope type: an envelope is a decoded document, its type is the
  string the handler dispatches on, and its \<open>to\<close>, \<open>from\<close> and \<open>seq\<close> are what the
  handler reads from it.
\<close>

definition has_type :: "json \<Rightarrow> string \<Rightarrow> bool" where
  "has_type doc t =
     (case as_cstr (getMember doc ''type'') of None \<Rightarrow> False | Some s \<Rightarrow> strcmp0 s t)"

definition env_to :: "jsonlib \<Rightarrow> json \<Rightarrow> uint32_t" where
  "env_to lib doc = as_uint32 lib (getMember doc ''to'')"

definition env_from :: "jsonlib \<Rightarrow> json \<Rightarrow> uint32_t" where
  "env_from lib doc = as_uint32 lib (getMember doc ''from'')"

definition env_seq :: "jsonlib \<Rightarrow> json \<Rightarrow> uint32_t" where
  "env_seq lib doc = as_uint32 lib (getMember doc ''seq'')"

text \<open>An array of node identifiers, as \<open>hops\<close> and \<open>neighbors\<close> hold them.\<close>

definition hops_doc :: "uint32_t list \<Rightarrow> json" where
  "hops_doc H = JArr (map of_uint32 H)"

section \<open>Gateway\<close>


definition MQTT_TOPIC_CONTROL :: string where
  "MQTT_TOPIC_CONTROL = ''Nodos/control''"







text \<open>
  \<open>mqttCallback\<close>: the payload is copied byte by byte into a \<open>String\<close>, and that
  string, not a re-encoding, is what goes into the mesh.
\<close>

definition mqttCallback :: "jsonlib \<Rightarrow> string \<Rightarrow> string \<Rightarrow> string effect list" where
  "mqttCallback lib topic payload =
     (let msg = foldl (\<lambda>s b. s @ [b]) [] payload
      in Serial ''MQTT Control recibido'' #
         (case deserializeJson lib 200 msg of
            Some doc \<Rightarrow>
              (let to = as_uint32 lib (getMember doc ''to'')
               in if to = 0 then [SendBroadcast msg, Serial ''Enviado Broadcast a Mesh'']
                  else [SendSingle to msg, Serial ''Enviado Unicast''])
          | None \<Rightarrow> [Serial ''Error parseando JSON de control'']))"

text \<open>
  \<open>reconnect\<close> loops while \<open>client.connected()\<close> is false, and for ever when the broker
  never answers. The client is connected only after a \<open>client.connect\<close> that succeeded,
  and until the connection is lost. The broker decides both: \<open>connect_at k\<close> is the
  result of the \<open>k\<close>-th \<open>client.connect\<close> of the call, and \<open>lost_at k\<close> says that the
  connection it made is already gone when the loop tests \<open>client.connected()\<close> next.
  \<open>reconnect_loop\<close> carries what \<open>client.connected()\<close> returns at the test, the number
  of passes made and the calls made so far.
\<close>

record broker =
  connect_at :: "nat \<Rightarrow> bool"
  lost_at :: "nat \<Rightarrow> bool"

partial_function (option) reconnect_loop ::
    "broker \<Rightarrow> bool \<Rightarrow> nat \<Rightarrow> string effect list \<Rightarrow> string effect list option" where
  "reconnect_loop b up k trace =
     (if up then Some trace
      else reconnect_loop b (connect_at b k \<and> \<not> lost_at b k) (Suc k)
             (trace @
              Serial ''Conectando a MQTT...'' # Connect (connect_at b k) #
              (if connect_at b k
               then [Serial ''MQTT Conectado!'', Subscribe MQTT_TOPIC_CONTROL,
                     Serial ''Suscrito a control'']
               else [Serial ''Fallo MQTT, reintentando en 5s'', Delay 5000])))"

text \<open>\<open>reconnect\<close>, entered with \<open>client.connected()\<close> returning \<open>up\<close>.\<close>

definition reconnect :: "broker \<Rightarrow> bool \<Rightarrow> string effect list option" where
  "reconnect b up = reconnect_loop b up 0 []"

section \<open>A JSON library given by a table\<close>

text \<open>
  To run the callbacks on concrete messages, a stand-in for the library. It knows the
  finitely many texts of a table, in both directions, and it accounts for memory as
  ArduinoJson 6 does on the 32-bit ESP32 the firmware is written for: every object member
  and every array element takes a slot of 16 bytes (\<open>JSON_OBJECT_SIZE(n)\<close> and
  \<open>JSON_ARRAY_SIZE(n)\<close> are \<open>16 * n\<close>; the 384 bytes of the TRACE_REPLY are 4 members and
  20 hops, the 256 bytes of the TOPO are 2 members and 14 neighbours). Strings are counted
  as stored by reference, which is the least a document can hold. A text deserialises
  when its document fits the capacity.
\<close>

primrec slots :: "json \<Rightarrow> nat" where
  "slots JNull = 0"
| "slots (JBool b) = 0"
| "slots (JInt n) = 0"
| "slots (JFloat r) = 0"
| "slots (JStr s) = 0"
| "slots (JArr xs) = length xs + sum_list (map slots xs)"
| "slots (JObj kvs) = length kvs + sum_list (map snd (map (map_prod id slots) kvs))"

definition table_lib :: "(string \<times> json) list \<Rightarrow> jsonlib" where
  "table_lib tab =
     \<lparr> deserializeJson =
         (\<lambda>capacity s. case map_of tab s of
                          None \<Rightarrow> None
                        | Some d \<Rightarrow> if 16 * slots d \<le> capacity then Some d else None),
       serializeJson = (\<lambda>d. case find (\<lambda>(s, d'). d' = d) tab of Some (s, d') \<Rightarrow> s | None \<Rightarrow> []),
       parseNumber = (\<lambda>s. 0),
       memoryUsage = (\<lambda>d. 16 * slots d),
       slotSize = 16 \<rparr>"

subsection \<open>Example messages\<close>

definition ex_ping_text :: string where
  \<open>ex_ping_text = ''{"type":"PING","to":42,"from":1,"seq":7}''\<close>

definition ex_ping :: json where
  "ex_ping =
     JObj [(''type'', JStr ''PING''), (''to'', JInt 42), (''from'', JInt 1), (''seq'', JInt 7)]"

definition ex_pong_text :: string where
  \<open>ex_pong_text = ''{"type":"PONG","seq":7,"from":42}''\<close>

definition ex_topo_req_text :: string where
  \<open>ex_topo_req_text = ''{"type":"TOPO_REQ","to":0,"from":1,"seq":7}''\<close>

definition ex_topo_req :: json where
  "ex_topo_req =
     JObj [(''type'', JStr ''TOPO_REQ''), (''to'', JInt 0), (''from'', JInt 1), (''seq'', JInt 7)]"

definition ex_topo_text :: string where
  \<open>ex_topo_text = ''{"type":"TOPO","neighbors":[2,5,9]}''\<close>

definition ex_topo :: json where
  "ex_topo = JObj [(''type'', JStr ''TOPO''), (''neighbors'', JArr [JInt 2, JInt 5, JInt 9])]"

definition ex_trace_text :: string where
  \<open>ex_trace_text = ''{"type":"TRACE","to":9,"from":1,"seq":7,"hops":[2]}''\<close>

definition ex_trace :: json where
  "ex_trace =
     JObj [(''type'', JStr ''TRACE''), (''to'', JInt 9), (''from'', JInt 1), (''seq'', JInt 7),
           (''hops'', JArr [JInt 2])]"

definition ex_trace_fwd_text :: string where
  \<open>ex_trace_fwd_text = ''{"type":"TRACE","to":9,"from":1,"seq":7,"hops":[2,5]}''\<close>

definition ex_trace_fwd :: json where
  "ex_trace_fwd =
     JObj [(''type'', JStr ''TRACE''), (''to'', JInt 9), (''from'', JInt 1), (''seq'', JInt 7),
           (''hops'', JArr [JInt 2, JInt 5])]"

definition ex_trace_reply_text :: string where
  \<open>ex_trace_reply_text = ''{"type":"TRACE_REPLY","seq":7,"from":9,"hops":[2,9]}''\<close>

definition ex_trace_reply :: json where
  "ex_trace_reply =
     JObj [(''type'', JStr ''TRACE_REPLY''), (''seq'', JInt 7), (''from'', JInt 9),
           (''hops'', JArr [JInt 2, JInt 9])]"

text \<open>A TRACE as the README gives the format of a request: no \<open>hops\<close> member.\<close>

definition ex_bare_trace_text :: string where
  \<open>ex_bare_trace_text = ''{"type":"TRACE","to":9,"from":1,"seq":7}''\<close>

definition ex_bare_trace :: json where
  "ex_bare_trace =
     JObj [(''type'', JStr ''TRACE''), (''to'', JInt 9), (''from'', JInt 1), (''seq'', JInt 7)]"

definition ex_bare_reply_text :: string where
  \<open>ex_bare_reply_text = ''{"type":"TRACE_REPLY","seq":7,"from":9,"hops":[]}''\<close>

definition ex_bare_reply :: json where
  "ex_bare_reply =
     JObj [(''type'', JStr ''TRACE_REPLY''), (''seq'', JInt 7), (''from'', JInt 9),
           (''hops'', JArr [])]"

text \<open>
  A TRACE that has gone round between nodes 2 and 5 thirty-two times: 64 hops, 69 slots.
\<close>

definition ex_loop_hops :: "json list" where
  "ex_loop_hops = concat (replicate 32 [JInt 2, JInt 5])"

definition ex_loop_trace_text :: string where
  \<open>ex_loop_trace_text =
     ''{"type":"TRACE","to":9,"from":1,"seq":7,"hops":['' @ concat (replicate 31 ''2,5,'') @
     ''2,5]}''\<close>

definition ex_loop_trace :: json where
  "ex_loop_trace =
     JObj [(''type'', JStr ''TRACE''), (''to'', JInt 9), (''from'', JInt 1), (''seq'', JInt 7),
           (''hops'', JArr ex_loop_hops)]"

text \<open>A TRACE with 27 hops: 32 slots, which is all of a document of 512 bytes.\<close>

definition ex_full_hops :: "json list" where
  "ex_full_hops = concat (replicate 9 [JInt 2, JInt 5, JInt 6])"

definition ex_full_trace_text :: string where
  \<open>ex_full_trace_text =
     ''{"type":"TRACE","to":9,"from":1,"seq":7,"hops":['' @ concat (replicate 8 ''2,5,6,'') @
     ''2,5,6]}''\<close>

definition ex_full_trace :: json where
  "ex_full_trace =
     JObj [(''type'', JStr ''TRACE''), (''to'', JInt 9), (''from'', JInt 1), (''seq'', JInt 7),
           (''hops'', JArr ex_full_hops)]"

text \<open>A TRACE for node 9 that has passed twenty nodes, and the reply node 9 gives.\<close>

definition ex_twenty :: "json list" where
  "ex_twenty =
     [JInt 11, JInt 12, JInt 13, JInt 14, JInt 15, JInt 16, JInt 17, JInt 18, JInt 19, JInt 20,
      JInt 21, JInt 22, JInt 23, JInt 24, JInt 25, JInt 26, JInt 27, JInt 28, JInt 29, JInt 30]"

definition ex_twenty_trace_text :: string where
  \<open>ex_twenty_trace_text =
     ''{"type":"TRACE","to":9,"from":1,"seq":7,"hops":[11,12,13,14,15,16,17,18,19,20,21,22,23,24,25,26,27,28,29,30]}''\<close>

definition ex_twenty_trace :: json where
  "ex_twenty_trace =
     JObj [(''type'', JStr ''TRACE''), (''to'', JInt 9), (''from'', JInt 1), (''seq'', JInt 7),
           (''hops'', JArr ex_twenty)]"

definition ex_twenty_reply_text :: string where
  \<open>ex_twenty_reply_text =
     ''{"type":"TRACE_REPLY","seq":7,"from":9,"hops":[11,12,13,14,15,16,17,18,19,20,21,22,23,24,25,26,27,28,29,30]}''\<close>

definition ex_twenty_reply :: json where
  "ex_twenty_reply =
     JObj [(''type'', JStr ''TRACE_REPLY''), (''seq'', JInt 7), (''from'', JInt 9),
           (''hops'', JArr ex_twenty)]"

definition ex_lib :: jsonlib where
  "ex_lib = table_lib
     [(ex_ping_text, ex_ping), (ex_pong_text, pong_doc 7 42),
      (ex_topo_req_text, ex_topo_req), (ex_topo_text, ex_topo),
      (ex_trace_text, ex_trace), (ex_trace_fwd_text, ex_trace_fwd),
      (ex_trace_reply_text, ex_trace_reply), (ex_bare_trace_text, ex_bare_trace),
      (ex_bare_reply_text, ex_bare_reply), (ex_loop_trace_text, ex_loop_trace),
      (ex_full_trace_text, ex_full_trace),
      (ex_twenty_trace_text, ex_twenty_trace), (ex_twenty_reply_text, ex_twenty_reply)]"

definition ex_node :: "uint32_t \<Rightarrow> mesh" where
  "ex_node myId = \<lparr> getNodeId = myId, getNodeList = [2, 5, 9] \<rparr>"


text \<open>
  A broker that refuses the first \<open>client.connect\<close>, accepts the second but drops the
  connection at once, and accepts the third for good.
\<close>

definition ex_broker :: broker where
  "ex_broker = \<lparr> connect_at = (\<lambda>k. 1 \<le> k), lost_at = (\<lambda>k. k \<le> 1) \<rparr>"

section \<open>Reading and comparing\<close>

lemma as_uint32_of_uint32: "as_uint32 lib (Some (of_uint32 w)) = w"
  using uint_lt2p [of w] by (simp add: as_uint32_def of_uint32_def)

lemma c_str_literals:
  "c_str ''PING'' = ''PING''" "c_str ''TOPO_REQ'' = ''TOPO_REQ''" "c_str ''PONG'' = ''PONG''"
  "c_str ''TRACE'' = ''TRACE''" "c_str ''TRACE_REPLY'' = ''TRACE_REPLY''" "c_str ''TOPO'' = ''TOPO''"
  by (simp_all add: c_str_def)

lemma has_typeE:
  assumes "has_type doc t"
  obtains s where "as_cstr (getMember doc ''type'') = Some s" and "c_str s = c_str t"
  using assms by (auto simp: has_type_def strcmp0_def split: option.splits)

lemma mesh_sends_map:
  "mesh_sends (map (map_effect f) es) = map (map_effect f) (mesh_sends es)"
  unfolding mesh_sends_def by (induction es) (auto elim: is_mesh_send.elims)

text \<open>Once a message has deserialised, what goes into the mesh is what the dispatch sends.\<close>

lemma received_luz_decoded:
  "deserializeJson lib 512 msg = Some doc \<Longrightarrow>
   mesh_sends (receivedCallback_luz lib m sender msg) =
     map (map_effect (serializeJson lib)) (mesh_sends (control_luz lib m doc))"
  using mesh_sends_map [of "serializeJson lib" "control_luz lib m doc"]
  by (simp add: receivedCallback_luz_def mesh_sends_def)

lemma received_dht_decoded:
  "deserializeJson lib 512 msg = Some doc \<Longrightarrow>
   mesh_sends (receivedCallback_dht lib m sender msg) =
     map (map_effect (serializeJson lib)) (mesh_sends (control_dht lib m doc))"
  using mesh_sends_map [of "serializeJson lib" "control_dht lib m doc"]
  by (simp add: receivedCallback_dht_def mesh_sends_def)


subsection \<open>Adding to an array\<close>

lemma map_of_array_add:
  "map_of (array_add key x kvs) k =
     (if k = key
      then map_option (\<lambda>v. case v of JArr xs \<Rightarrow> JArr (xs @ [x]) | _ \<Rightarrow> v) (map_of kvs key)
      else map_of kvs k)"
  by (induction kvs) (auto split: json.splits)

lemma array_add_absent: "map_of kvs key = None \<Longrightarrow> array_add key x kvs = kvs"
  by (induction kvs) (auto split: if_splits)

lemma getMember_add_other:
  "k \<noteq> key \<Longrightarrow> getMember (member_array_add lib cap key x doc) k = getMember doc k"
  by (cases doc) (simp_all add: getMember_def member_array_add_def map_of_array_add)

lemma getMember_add_array:
  "getMember doc key = Some (JArr hs) \<Longrightarrow>
   getMember (member_array_add lib cap key x doc) key =
     Some (JArr (if has_room lib cap doc then hs @ [x] else hs))"
  by (cases doc) (simp_all add: getMember_def member_array_add_def map_of_array_add)

text \<open>
  A document with no member of that name is left as it is: the handler does not create
  the array. So is a document that is full.
\<close>

lemma member_array_add_absent:
  "getMember doc key = None \<Longrightarrow> member_array_add lib cap key x doc = doc"
  by (cases doc) (simp_all add: getMember_def member_array_add_def array_add_absent)

lemma member_array_add_full:
  "\<not> has_room lib cap doc \<Longrightarrow> member_array_add lib cap key x doc = doc"
  by (cases doc) (simp_all add: member_array_add_def)

lemma getMember_adds_other:
  "k \<noteq> key \<Longrightarrow>
   getMember (foldl (\<lambda>d y. member_array_add lib cap key (f y) d) doc ys) k = getMember doc k"
  by (induction ys arbitrary: doc) (simp_all add: getMember_add_other)

lemma has_type_add_hops:
  "has_type (member_array_add lib cap ''hops'' x doc) t = has_type doc t"
  by (simp add: has_type_def getMember_add_other)

lemma env_add_hops:
  "env_to lib (member_array_add lib cap ''hops'' x doc) = env_to lib doc"
  "env_from lib (member_array_add lib cap ''hops'' x doc) = env_from lib doc"
  "env_seq lib (member_array_add lib cap ''hops'' x doc) = env_seq lib doc"
  by (simp_all add: env_to_def env_from_def env_seq_def getMember_add_other)

subsection \<open>The example library\<close>

lemmas ex_texts = ex_ping_text_def ex_pong_text_def ex_topo_req_text_def ex_topo_text_def
  ex_trace_text_def ex_trace_fwd_text_def ex_trace_reply_text_def ex_bare_trace_text_def
  ex_bare_reply_text_def ex_loop_trace_text_def ex_full_trace_text_def
  ex_twenty_trace_text_def ex_twenty_reply_text_def

lemmas ex_docs = ex_ping_def ex_topo_req_def ex_topo_def ex_trace_def ex_trace_fwd_def
  ex_trace_reply_def ex_bare_trace_def ex_bare_reply_def ex_loop_trace_def ex_loop_hops_def
  ex_full_trace_def ex_full_hops_def ex_twenty_trace_def ex_twenty_reply_def ex_twenty_def pong_doc_def of_uint32_def

lemmas reading = getMember_def as_cstr_def as_uint32_def or_zero_def as_JsonArray_def
  strcmp0_def c_str_def has_type_def env_to_def env_from_def env_seq_def

lemma ex_slots:
  "slots ex_ping = 4" "slots (pong_doc 7 42) = 3" "slots ex_topo_req = 4" "slots ex_topo = 5"
  "slots ex_trace = 6" "slots ex_trace_fwd = 7" "slots ex_trace_reply = 6"
  "slots ex_bare_trace = 4" "slots ex_bare_reply = 4" "slots ex_loop_trace = 69"
  "slots ex_twenty_trace = 25" "slots ex_twenty_reply = 24" "slots ex_full_trace = 32"
  by (simp_all add: ex_docs length_concat sum_list_replicate)

lemma ex_deserialize:
  "deserializeJson ex_lib cap ex_ping_text = (if 64 \<le> cap then Some ex_ping else None)"
  "deserializeJson ex_lib cap ex_pong_text = (if 48 \<le> cap then Some (pong_doc 7 42) else None)"
  "deserializeJson ex_lib cap ex_topo_req_text = (if 64 \<le> cap then Some ex_topo_req else None)"
  "deserializeJson ex_lib cap ex_topo_text = (if 80 \<le> cap then Some ex_topo else None)"
  "deserializeJson ex_lib cap ex_trace_text = (if 96 \<le> cap then Some ex_trace else None)"
  "deserializeJson ex_lib cap ex_trace_reply_text
     = (if 96 \<le> cap then Some ex_trace_reply else None)"
  "deserializeJson ex_lib cap ex_bare_trace_text
     = (if 64 \<le> cap then Some ex_bare_trace else None)"
  "deserializeJson ex_lib cap ex_loop_trace_text
     = (if 1104 \<le> cap then Some ex_loop_trace else None)"
  "deserializeJson ex_lib cap ex_twenty_trace_text
     = (if 400 \<le> cap then Some ex_twenty_trace else None)"
  "deserializeJson ex_lib cap ex_full_trace_text
     = (if 512 \<le> cap then Some ex_full_trace else None)"
  "deserializeJson ex_lib cap ''no json'' = None"
  by (simp_all add: ex_lib_def table_lib_def ex_texts ex_slots)

lemma ex_serialize:
  "serializeJson ex_lib (pong_doc 7 42) = ex_pong_text"
  "serializeJson ex_lib ex_topo = ex_topo_text"
  "serializeJson ex_lib ex_trace_fwd = ex_trace_fwd_text"
  "serializeJson ex_lib ex_trace_reply = ex_trace_reply_text"
  "serializeJson ex_lib ex_bare_trace = ex_bare_trace_text"
  "serializeJson ex_lib ex_bare_reply = ex_bare_reply_text"
  "serializeJson ex_lib ex_twenty_reply = ex_twenty_reply_text"
  by (simp_all add: ex_lib_def table_lib_def ex_docs)


lemma ex_has_room: "has_room ex_lib cap doc = (16 * slots doc + 16 \<le> cap)"
  by (simp add: has_room_def ex_lib_def table_lib_def)

lemma ex_ping_fields:
  "has_type ex_ping ''PING''" "env_to ex_lib ex_ping = 42" "env_seq ex_lib ex_ping = 7"
  "env_from ex_lib ex_ping = 1"
  by (simp_all add: ex_ping_def reading)

lemma ex_topo_req_fields:
  "has_type ex_topo_req ''TOPO_REQ''" "env_to ex_lib ex_topo_req = 0"
  "env_seq ex_lib ex_topo_req = 7" "env_from ex_lib ex_topo_req = 1"
  "or_zero (getMember ex_topo_req ''from'') = 1"
  by (simp_all add: ex_topo_req_def reading)

lemma ex_trace_fields:
  "has_type ex_trace ''TRACE''" "env_to ex_lib ex_trace = 9" "env_seq ex_lib ex_trace = 7"
  "env_from ex_lib ex_trace = 1" "getMember ex_trace ''hops'' = Some (JArr [JInt 2])"
  by (simp_all add: ex_trace_def reading)

lemma ex_bare_trace_fields:
  "has_type ex_bare_trace ''TRACE''" "env_to ex_lib ex_bare_trace = 9"
  "env_seq ex_lib ex_bare_trace = 7" "env_from ex_lib ex_bare_trace = 1"
  "getMember ex_bare_trace ''hops'' = None"
  by (simp_all add: ex_bare_trace_def reading)

lemma ex_loop_trace_fields:
  "has_type ex_loop_trace ''TRACE''" "env_to ex_lib ex_loop_trace = 9"
  "getMember ex_loop_trace ''hops'' = Some (JArr ex_loop_hops)" "length ex_loop_hops = 64"
  by (simp_all add: ex_loop_trace_def reading ex_loop_hops_def length_concat sum_list_replicate)

lemma ex_full_trace_fields:
  "has_type ex_full_trace ''TRACE''" "env_to ex_lib ex_full_trace = 9"
  "getMember ex_full_trace ''hops'' = Some (JArr ex_full_hops)" "length ex_full_hops = 27"
  by (simp_all add: ex_full_trace_def reading ex_full_hops_def length_concat sum_list_replicate)

lemma ex_twenty_trace_fields:
  "has_type ex_twenty_trace ''TRACE''" "env_to ex_lib ex_twenty_trace = 9"
  "env_seq ex_lib ex_twenty_trace = 7" "env_from ex_lib ex_twenty_trace = 1"
  "getMember ex_twenty_trace ''hops'' = Some (JArr ex_twenty)" "length ex_twenty = 20"
  by (simp_all add: ex_twenty_trace_def reading ex_twenty_def)

lemma ex_serialize_full: "serializeJson ex_lib ex_full_trace = ex_full_trace_text"
proof -
  have "ex_loop_hops \<noteq> ex_full_hops" "[JInt 2] \<noteq> ex_full_hops"
    "[JInt 2, JInt 5] \<noteq> ex_full_hops"
    using ex_loop_trace_fields(4) ex_full_trace_fields(4)
    by (auto dest: arg_cong [of _ _ length])
  then show ?thesis
    by (simp add: ex_lib_def table_lib_def ex_ping_def ex_topo_req_def ex_topo_def ex_trace_def
        ex_trace_fwd_def ex_trace_reply_def ex_bare_trace_def ex_bare_reply_def
        ex_loop_trace_def ex_full_trace_def pong_doc_def)
qed

lemma ex_topo_built: "topo_doc ex_lib [2, 5, 9] = ex_topo"
  by (simp add: topo_doc_def member_array_add_def ex_has_room ex_topo_def of_uint32_def)

section \<open>PING\<close>

lemma control_luz_ping:
  assumes "has_type doc ''PING''"
  shows "mesh_sends (control_luz lib m doc) =
           (if env_to lib doc = getNodeId m
            then [SendSingle (env_from lib doc) (pong_doc (env_seq lib doc) (getNodeId m))]
            else [])"
  using assms
  by (auto elim!: has_typeE
      simp: control_luz_def mesh_sends_def strcmp0_def c_str_literals env_to_def env_from_def
        env_seq_def Let_def)

lemma control_dht_ping:
  assumes "has_type doc ''PING''"
  shows "mesh_sends (control_dht lib m doc) =
           (if env_to lib doc = getNodeId m
            then [SendSingle (env_from lib doc) (pong_doc (env_seq lib doc) (getNodeId m))]
            else [])"
  using assms
  by (auto elim!: has_typeE
      simp: control_dht_def mesh_sends_def strcmp0_def c_str_literals env_to_def env_from_def
        env_seq_def Let_def)

lemma pong_doc_fields:
  "has_type (pong_doc S X) ''PONG''" "env_seq lib (pong_doc S X) = S"
  "env_from lib (pong_doc S X) = X"
  by (simp_all add: pong_doc_def has_type_def getMember_def as_cstr_def strcmp0_def env_seq_def
      env_from_def as_uint32_of_uint32)

text \<open>
  C1. A PING with \<open>to = X\<close>, \<open>seq = S\<close>, \<open>from = R\<close> that reaches node \<open>X\<close> makes it send
  one message into the mesh: the PONG with \<open>seq = S\<close> and \<open>from = X\<close>, by unicast to \<open>R\<close>,
  whoever the mesh-level sender was. A node with another identifier sends nothing. Both
  node firmwares do so.
\<close>

theorem ping_answered_by_addressee_only:
  assumes "deserializeJson lib 512 msg = Some doc" and "has_type doc ''PING''"
    and "env_to lib doc = X" and "env_seq lib doc = S" and "env_from lib doc = R"
  shows "(getNodeId m = X \<longrightarrow>
            mesh_sends (receivedCallback_luz lib m sender msg)
              = [SendSingle R (serializeJson lib (pong_doc S X))] \<and>
            mesh_sends (receivedCallback_dht lib m sender msg)
              = [SendSingle R (serializeJson lib (pong_doc S X))]) \<and>
         (getNodeId m \<noteq> X \<longrightarrow>
            mesh_sends (receivedCallback_luz lib m sender msg) = [] \<and>
            mesh_sends (receivedCallback_dht lib m sender msg) = []) \<and>
         has_type (pong_doc S X) ''PONG'' \<and> env_seq lib (pong_doc S X) = S \<and>
         env_from lib (pong_doc S X) = X"
  using assms
  by (auto simp: received_luz_decoded received_dht_decoded control_luz_ping control_dht_ping
      pong_doc_fields)

theorem ping_answered_by_addressee_only_witness:
  "deserializeJson ex_lib 512 ex_ping_text = Some ex_ping \<and> has_type ex_ping ''PING'' \<and>
   env_to ex_lib ex_ping = 42 \<and> env_seq ex_lib ex_ping = 7 \<and> env_from ex_lib ex_ping = 1 \<and>
   mesh_sends (receivedCallback_luz ex_lib (ex_node 42) 3 ex_ping_text)
     = [SendSingle 1 ex_pong_text] \<and>
   mesh_sends (receivedCallback_dht ex_lib (ex_node 42) 3 ex_ping_text)
     = [SendSingle 1 ex_pong_text] \<and>
   mesh_sends (receivedCallback_luz ex_lib (ex_node 5) 3 ex_ping_text) = [] \<and>
   mesh_sends (receivedCallback_dht ex_lib (ex_node 5) 3 ex_ping_text) = []"
proof -
  have ping: "deserializeJson ex_lib 512 ex_ping_text = Some ex_ping"
    by (simp add: ex_deserialize)
  from ping_answered_by_addressee_only [OF ping ex_ping_fields, of "ex_node 42" 3]
    ping_answered_by_addressee_only [OF ping ex_ping_fields, of "ex_node 5" 3]
  show ?thesis
    by (simp add: ping ex_serialize ex_ping_fields ex_node_def)
qed

section \<open>PONG and TRACE_REPLY\<close>

lemma control_luz_terminal:
  assumes "has_type doc ''PONG'' \<or> has_type doc ''TRACE_REPLY''"
  shows "mesh_sends (control_luz lib m doc) = []"
  using assms
  by (auto elim!: has_typeE simp: control_luz_def mesh_sends_def strcmp0_def c_str_literals)

lemma control_dht_terminal:
  assumes "has_type doc ''PONG'' \<or> has_type doc ''TRACE_REPLY''"
  shows "mesh_sends (control_dht lib m doc) = []"
  using assms
  by (auto elim!: has_typeE simp: control_dht_def mesh_sends_def strcmp0_def c_str_literals)

text \<open>
  C6. A PONG or a TRACE_REPLY that reaches a sensor node is consumed there: the handler
  of either firmware sends nothing into the mesh.
\<close>

theorem replies_are_terminal:
  assumes "deserializeJson lib 512 msg = Some doc"
    and "has_type doc ''PONG'' \<or> has_type doc ''TRACE_REPLY''"
  shows "mesh_sends (receivedCallback_luz lib m sender msg) = [] \<and>
         mesh_sends (receivedCallback_dht lib m sender msg) = []"
  using assms
  by (simp add: received_luz_decoded received_dht_decoded control_luz_terminal
      control_dht_terminal)

theorem replies_are_terminal_witness:
  "deserializeJson ex_lib 512 ex_pong_text = Some (pong_doc 7 42) \<and>
   has_type (pong_doc 7 42) ''PONG'' \<and>
   mesh_sends (receivedCallback_luz ex_lib (ex_node 1) 42 ex_pong_text) = [] \<and>
   mesh_sends (receivedCallback_dht ex_lib (ex_node 1) 42 ex_pong_text) = [] \<and>
   deserializeJson ex_lib 512 ex_trace_reply_text = Some ex_trace_reply \<and>
   has_type ex_trace_reply ''TRACE_REPLY'' \<and>
   mesh_sends (receivedCallback_luz ex_lib (ex_node 1) 9 ex_trace_reply_text) = [] \<and>
   mesh_sends (receivedCallback_dht ex_lib (ex_node 1) 9 ex_trace_reply_text) = []"
proof -
  have pong: "has_type (pong_doc 7 42) ''PONG''"
    and reply: "has_type ex_trace_reply ''TRACE_REPLY''"
    and pong_text: "deserializeJson ex_lib 512 ex_pong_text = Some (pong_doc 7 42)"
    and reply_text: "deserializeJson ex_lib 512 ex_trace_reply_text = Some ex_trace_reply"
    by (simp_all add: ex_trace_reply_def pong_doc_def reading ex_deserialize)
  from pong have "has_type (pong_doc 7 42) ''PONG'' \<or> has_type (pong_doc 7 42) ''TRACE_REPLY''" ..
  note a = replies_are_terminal [OF pong_text this, of "ex_node 1" 42]
  from reply
  have "has_type ex_trace_reply ''PONG'' \<or> has_type ex_trace_reply ''TRACE_REPLY''" ..
  note b = replies_are_terminal [OF reply_text this, of "ex_node 1" 9]
  from a b pong reply pong_text reply_text show ?thesis
    by simp
qed

section \<open>TRACE\<close>

lemma mesh_sends_on_trace:
  "mesh_sends (on_trace lib m doc) =
     (if env_to lib doc = getNodeId m
      then [SendSingle (env_from lib doc)
              (trace_reply_doc lib (env_seq lib doc) (getNodeId m)
                 (as_JsonArray
                    (getMember (member_array_add lib 512 ''hops'' (of_uint32 (getNodeId m)) doc)
                       ''hops'')))]
      else [SendSingle (env_to lib doc)
              (member_array_add lib 512 ''hops'' (of_uint32 (getNodeId m)) doc)])"
  by (simp add: on_trace_def mesh_sends_def env_to_def env_from_def env_seq_def Let_def)

lemma control_trace:
  assumes "has_type doc ''TRACE''"
  shows "mesh_sends (control_luz lib m doc) = mesh_sends (on_trace lib m doc)"
    and "mesh_sends (control_dht lib m doc) = mesh_sends (on_trace lib m doc)"
  using assms
  by (auto elim!: has_typeE simp: control_luz_def control_dht_def mesh_sends_def strcmp0_def
      c_str_literals)

lemma received_trace:
  assumes "deserializeJson lib 512 msg = Some doc" and "has_type doc ''TRACE''"
  shows "mesh_sends (receivedCallback_luz lib m sender msg) =
           map (map_effect (serializeJson lib)) (mesh_sends (on_trace lib m doc))"
    and "mesh_sends (receivedCallback_dht lib m sender msg) =
           map (map_effect (serializeJson lib)) (mesh_sends (on_trace lib m doc))"
  using assms by (simp_all add: received_luz_decoded received_dht_decoded control_trace)

lemma received_trace_forward:
  assumes "deserializeJson lib 512 msg = Some doc" and "has_type doc ''TRACE''"
    and "env_to lib doc \<noteq> getNodeId m"
  shows "mesh_sends (receivedCallback_luz lib m sender msg) =
           [SendSingle (env_to lib doc)
              (serializeJson lib
                 (member_array_add lib 512 ''hops'' (of_uint32 (getNodeId m)) doc))]"
    and "mesh_sends (receivedCallback_dht lib m sender msg) =
           [SendSingle (env_to lib doc)
              (serializeJson lib
                 (member_array_add lib 512 ''hops'' (of_uint32 (getNodeId m)) doc))]"
  using assms by (simp_all add: received_trace mesh_sends_on_trace)

lemma received_trace_reply:
  assumes "deserializeJson lib 512 msg = Some doc" and "has_type doc ''TRACE''"
    and "env_to lib doc = getNodeId m"
  shows "mesh_sends (receivedCallback_luz lib m sender msg) =
           [SendSingle (env_from lib doc)
              (serializeJson lib
                 (trace_reply_doc lib (env_seq lib doc) (getNodeId m)
                    (as_JsonArray
                       (getMember
                          (member_array_add lib 512 ''hops'' (of_uint32 (getNodeId m)) doc)
                          ''hops''))))]"
    and "mesh_sends (receivedCallback_dht lib m sender msg) =
           [SendSingle (env_from lib doc)
              (serializeJson lib
                 (trace_reply_doc lib (env_seq lib doc) (getNodeId m)
                    (as_JsonArray
                       (getMember
                          (member_array_add lib 512 ''hops'' (of_uint32 (getNodeId m)) doc)
                          ''hops''))))]"
  using assms by (simp_all add: received_trace mesh_sends_on_trace)

text \<open>
  What a forwarding node leaves alone: every member but \<open>hops\<close>, and so the type, \<open>to\<close>,
  \<open>from\<close> and \<open>seq\<close>. With a \<open>hops\<close> array and room in the document, the node's identifier
  is added at the end.
\<close>

lemma trace_forward_frame:
  assumes "deserializeJson lib 512 msg = Some doc" and "has_type doc ''TRACE''"
    and "env_to lib doc \<noteq> getNodeId m"
  shows "\<exists>doc'.
           mesh_sends (receivedCallback_luz lib m sender msg)
             = [SendSingle (env_to lib doc) (serializeJson lib doc')] \<and>
           mesh_sends (receivedCallback_dht lib m sender msg)
             = [SendSingle (env_to lib doc) (serializeJson lib doc')] \<and>
           (\<forall>k. k \<noteq> ''hops'' \<longrightarrow> getMember doc' k = getMember doc k) \<and>
           has_type doc' ''TRACE'' \<and> env_to lib doc' = env_to lib doc \<and>
           env_from lib doc' = env_from lib doc \<and> env_seq lib doc' = env_seq lib doc \<and>
           (\<forall>hs. getMember doc ''hops'' = Some (JArr hs) \<and> has_room lib 512 doc \<longrightarrow>
              getMember doc' ''hops'' = Some (JArr (hs @ [of_uint32 (getNodeId m)])))"
  using received_trace_forward [OF assms] assms(2)
  by (intro exI [of _ "member_array_add lib 512 ''hops'' (of_uint32 (getNodeId m)) doc"])
    (simp add: getMember_add_other has_type_add_hops env_add_hops getMember_add_array)

text \<open>
  A TRACE that arrives without a \<open>hops\<close> array is forwarded as it came, and its addressee
  answers with an empty \<open>hops\<close>: the handler adds to the array it finds and does not make
  one.
\<close>

lemma trace_reply_doc_no_hops:
  "trace_reply_doc lib S X None =
     JObj [(''type'', JStr ''TRACE_REPLY''), (''seq'', of_uint32 S), (''from'', of_uint32 X),
           (''hops'', JArr [])]"
  by (simp add: trace_reply_doc_def)

lemma trace_without_hops:
  assumes "deserializeJson lib 512 msg = Some doc" and "has_type doc ''TRACE''"
    and "getMember doc ''hops'' = None"
  shows "mesh_sends (receivedCallback_luz lib m sender msg) =
           (if env_to lib doc = getNodeId m
            then [SendSingle (env_from lib doc)
                    (serializeJson lib
                       (JObj [(''type'', JStr ''TRACE_REPLY''), (''seq'', of_uint32 (env_seq lib doc)),
                              (''from'', of_uint32 (getNodeId m)), (''hops'', JArr [])]))]
            else [SendSingle (env_to lib doc) (serializeJson lib doc)])"
    and "mesh_sends (receivedCallback_dht lib m sender msg) =
           (if env_to lib doc = getNodeId m
            then [SendSingle (env_from lib doc)
                    (serializeJson lib
                       (JObj [(''type'', JStr ''TRACE_REPLY''), (''seq'', of_uint32 (env_seq lib doc)),
                              (''from'', of_uint32 (getNodeId m)), (''hops'', JArr [])]))]
            else [SendSingle (env_to lib doc) (serializeJson lib doc)])"
  using assms
  by (simp_all add: received_trace mesh_sends_on_trace member_array_add_absent as_JsonArray_def
      trace_reply_doc_no_hops)

text \<open>
  C5, at a request in the format the README documents. Node 5 receives a TRACE for node 9
  that has no \<open>hops\<close> member. Both firmwares forward it to node 9 exactly as it came: no
  \<open>hops\<close> member is made and the identifier 5 is nowhere in what is sent.
\<close>

theorem trace_without_hops_forwarded_unchanged:
  "deserializeJson ex_lib 512 ex_bare_trace_text = Some ex_bare_trace \<and>
   has_type ex_bare_trace ''TRACE'' \<and> env_to ex_lib ex_bare_trace = 9 \<and>
   getNodeId (ex_node 5) = 5 \<and> getMember ex_bare_trace ''hops'' = None \<and>
   mesh_sends (receivedCallback_luz ex_lib (ex_node 5) 3 ex_bare_trace_text)
     = [SendSingle 9 ex_bare_trace_text] \<and>
   mesh_sends (receivedCallback_dht ex_lib (ex_node 5) 3 ex_bare_trace_text)
     = [SendSingle 9 ex_bare_trace_text]"
proof -
  have decoded: "deserializeJson ex_lib 512 ex_bare_trace_text = Some ex_bare_trace"
    by (simp add: ex_deserialize)
  show ?thesis
    using trace_without_hops [OF decoded ex_bare_trace_fields(1,5), of "ex_node 5" 3]
    by (simp add: decoded ex_bare_trace_fields ex_node_def ex_serialize)
qed

text \<open>
  C2, at the same request delivered to its addressee. Node 9 receives the TRACE for node
  9 that has no \<open>hops\<close> member, from originator 1 with \<open>seq = 7\<close>. Both firmwares answer
  node 1 with a TRACE_REPLY whose \<open>hops\<close> is empty: the identifier 9 of the destination is
  not in it.
\<close>

theorem trace_without_hops_answered_with_no_hops:
  "deserializeJson ex_lib 512 ex_bare_trace_text = Some ex_bare_trace \<and>
   has_type ex_bare_trace ''TRACE'' \<and> env_to ex_lib ex_bare_trace = 9 \<and>
   env_seq ex_lib ex_bare_trace = 7 \<and> env_from ex_lib ex_bare_trace = 1 \<and>
   getNodeId (ex_node 9) = 9 \<and> getMember ex_bare_trace ''hops'' = None \<and>
   mesh_sends (receivedCallback_luz ex_lib (ex_node 9) 3 ex_bare_trace_text)
     = [SendSingle 1 ex_bare_reply_text] \<and>
   mesh_sends (receivedCallback_dht ex_lib (ex_node 9) 3 ex_bare_trace_text)
     = [SendSingle 1 ex_bare_reply_text] \<and>
   serializeJson ex_lib ex_bare_reply = ex_bare_reply_text \<and>
   has_type ex_bare_reply ''TRACE_REPLY'' \<and> getMember ex_bare_reply ''hops'' = Some (JArr [])"
proof -
  have decoded: "deserializeJson ex_lib 512 ex_bare_trace_text = Some ex_bare_trace"
    by (simp add: ex_deserialize)
  have reply: "JObj [(''type'', JStr ''TRACE_REPLY''), (''seq'', of_uint32 7),
                     (''from'', of_uint32 9), (''hops'', JArr [])] = ex_bare_reply"
    and "has_type ex_bare_reply ''TRACE_REPLY''"
    and "getMember ex_bare_reply ''hops'' = Some (JArr [])"
    by (simp_all add: ex_bare_reply_def of_uint32_def reading)
  then show ?thesis
    using trace_without_hops [OF decoded ex_bare_trace_fields(1,5), of "ex_node 9" 3]
    by (simp add: decoded ex_bare_trace_fields ex_node_def ex_serialize)
qed

text \<open>
  With a \<open>hops\<close> array the same node answers as intended, up to the size of the reply
  document. A TRACE that has passed one node is answered with that node and the
  destination. A TRACE that has passed twenty nodes still fits the 512 bytes of the
  request document with the destination added, but the 384 bytes of the reply document
  hold twenty hops: the reply lists the twenty and leaves the destination out.
\<close>

lemma ex_trace_answered:
  "mesh_sends (receivedCallback_luz ex_lib (ex_node 9) 3 ex_trace_text)
     = [SendSingle 1 ex_trace_reply_text]"
  "mesh_sends (receivedCallback_dht ex_lib (ex_node 9) 3 ex_trace_text)
     = [SendSingle 1 ex_trace_reply_text]"
proof -
  have decoded: "deserializeJson ex_lib 512 ex_trace_text = Some ex_trace"
    by (simp add: ex_deserialize)
  have "trace_reply_doc ex_lib 7 9
          (as_JsonArray (getMember (member_array_add ex_lib 512 ''hops'' (of_uint32 9) ex_trace)
             ''hops'')) = ex_trace_reply"
    by (simp add: trace_reply_doc_def member_array_add_def ex_has_room ex_trace_def
        ex_trace_reply_def of_uint32_def reading)
  then show "mesh_sends (receivedCallback_luz ex_lib (ex_node 9) 3 ex_trace_text)
     = [SendSingle 1 ex_trace_reply_text]"
    and "mesh_sends (receivedCallback_dht ex_lib (ex_node 9) 3 ex_trace_text)
     = [SendSingle 1 ex_trace_reply_text]"
    using received_trace_reply [OF decoded ex_trace_fields(1), of "ex_node 9" 3]
    by (simp_all add: ex_trace_fields ex_node_def ex_serialize)
qed

lemma ex_twenty_answered_without_destination:
  "mesh_sends (receivedCallback_luz ex_lib (ex_node 9) 3 ex_twenty_trace_text)
     = [SendSingle 1 ex_twenty_reply_text]"
  "mesh_sends (receivedCallback_dht ex_lib (ex_node 9) 3 ex_twenty_trace_text)
     = [SendSingle 1 ex_twenty_reply_text]"
  "getMember ex_twenty_reply ''hops'' = Some (JArr ex_twenty)" "JInt 9 \<notin> set ex_twenty"
proof -
  have decoded: "deserializeJson ex_lib 512 ex_twenty_trace_text = Some ex_twenty_trace"
    by (simp add: ex_deserialize)
  have "trace_reply_doc ex_lib 7 9
          (as_JsonArray
             (getMember (member_array_add ex_lib 512 ''hops'' (of_uint32 9) ex_twenty_trace)
                ''hops'')) = ex_twenty_reply"
    by (simp add: trace_reply_doc_def member_array_add_def ex_has_room ex_twenty_trace_def
        ex_twenty_reply_def ex_twenty_def of_uint32_def reading)
  then show "mesh_sends (receivedCallback_luz ex_lib (ex_node 9) 3 ex_twenty_trace_text)
     = [SendSingle 1 ex_twenty_reply_text]"
    and "mesh_sends (receivedCallback_dht ex_lib (ex_node 9) 3 ex_twenty_trace_text)
     = [SendSingle 1 ex_twenty_reply_text]"
    using received_trace_reply [OF decoded ex_twenty_trace_fields(1), of "ex_node 9" 3]
    by (simp_all add: ex_twenty_trace_fields ex_node_def ex_serialize)
  show "getMember ex_twenty_reply ''hops'' = Some (JArr ex_twenty)"
    and "JInt 9 \<notin> set ex_twenty"
    by (simp_all add: ex_twenty_reply_def ex_twenty_def getMember_def)
qed




text \<open>
  A TRACE that fills the document to the last byte is forwarded, but as it came: with 27
  hops before and after node 5.
\<close>

lemma full_trace_forwarded_as_it_came:
  "deserializeJson ex_lib 512 ex_full_trace_text = Some ex_full_trace"
  "\<not> has_room ex_lib 512 ex_full_trace"
  "mesh_sends (receivedCallback_luz ex_lib (ex_node 5) 3 ex_full_trace_text)
     = [SendSingle 9 ex_full_trace_text]"
  "mesh_sends (receivedCallback_dht ex_lib (ex_node 5) 3 ex_full_trace_text)
     = [SendSingle 9 ex_full_trace_text]"
proof -
  show decoded: "deserializeJson ex_lib 512 ex_full_trace_text = Some ex_full_trace"
    by (simp add: ex_deserialize)
  show full: "\<not> has_room ex_lib 512 ex_full_trace"
    by (simp add: ex_has_room ex_slots)
  have ne: "env_to ex_lib ex_full_trace \<noteq> getNodeId (ex_node 5)"
    by (simp add: ex_full_trace_fields ex_node_def)
  show "mesh_sends (receivedCallback_luz ex_lib (ex_node 5) 3 ex_full_trace_text)
     = [SendSingle 9 ex_full_trace_text]"
    and "mesh_sends (receivedCallback_dht ex_lib (ex_node 5) 3 ex_full_trace_text)
     = [SendSingle 9 ex_full_trace_text]"
    using received_trace_forward [OF decoded ex_full_trace_fields(1) ne, of 3]
    by (simp_all add: member_array_add_full [OF full] ex_full_trace_fields ex_serialize_full)
qed


section \<open>The correlation number\<close>

lemma control_luz_topo:
  assumes "has_type doc ''TOPO_REQ''"
  shows "mesh_sends (control_luz lib m doc) =
           [SendSingle (or_zero (getMember doc ''from'')) (topo_doc lib (getNodeList m))]"
  using assms
  by (auto elim!: has_typeE
      simp: control_luz_def mesh_sends_def strcmp0_def c_str_literals Let_def)

lemma control_dht_topo:
  assumes "has_type doc ''TOPO_REQ''"
  shows "mesh_sends (control_dht lib m doc) =
           [SendSingle (env_from lib doc) (topo_doc lib (getNodeList m))]"
  using assms
  by (auto elim!: has_typeE
      simp: control_dht_def mesh_sends_def strcmp0_def c_str_literals Let_def env_from_def)

lemma topo_doc_fields:
  "has_type (topo_doc lib list) ''TOPO''" "getMember (topo_doc lib list) ''seq'' = None"
  "env_seq lib (topo_doc lib list) = 0"
  by (simp_all add: topo_doc_def has_type_def env_seq_def getMember_adds_other)
    (simp_all add: getMember_def as_cstr_def strcmp0_def as_uint32_def)

lemma trace_reply_doc_fields:
  "has_type (trace_reply_doc lib S X hops) ''TRACE_REPLY''"
  "env_seq lib (trace_reply_doc lib S X hops) = S"
  "env_from lib (trace_reply_doc lib S X hops) = X"
  by (simp_all add: trace_reply_doc_def has_type_def env_seq_def env_from_def
      getMember_adds_other)
    (simp_all add: getMember_def as_cstr_def strcmp0_def as_uint32_of_uint32)

text \<open>
  C3, as the firmware has it. A PING or a TRACE with \<open>seq = S\<close> that a node answers, being
  its addressee, gets a PONG or a TRACE_REPLY with the same \<open>seq = S\<close>. The TOPO that
  answers a TOPO_REQ is made of the type and the neighbours only: it has no \<open>seq\<close>
  member, and a reader of its \<open>seq\<close> gets 0.
\<close>

theorem replies_echo_seq_except_topo:
  assumes "deserializeJson lib 512 msg = Some doc" and "env_seq lib doc = S"
  shows "(has_type doc ''PING'' \<and> env_to lib doc = getNodeId m \<longrightarrow>
            mesh_sends (receivedCallback_luz lib m sender msg)
              = [SendSingle (env_from lib doc) (serializeJson lib (pong_doc S (getNodeId m)))] \<and>
            mesh_sends (receivedCallback_dht lib m sender msg)
              = [SendSingle (env_from lib doc) (serializeJson lib (pong_doc S (getNodeId m)))] \<and>
            env_seq lib (pong_doc S (getNodeId m)) = S) \<and>
         (has_type doc ''TRACE'' \<and> env_to lib doc = getNodeId m \<longrightarrow>
            (\<exists>hops.
               mesh_sends (receivedCallback_luz lib m sender msg)
                 = [SendSingle (env_from lib doc)
                      (serializeJson lib (trace_reply_doc lib S (getNodeId m) hops))] \<and>
               mesh_sends (receivedCallback_dht lib m sender msg)
                 = [SendSingle (env_from lib doc)
                      (serializeJson lib (trace_reply_doc lib S (getNodeId m) hops))] \<and>
               env_seq lib (trace_reply_doc lib S (getNodeId m) hops) = S)) \<and>
         (has_type doc ''TOPO_REQ'' \<longrightarrow>
            mesh_sends (receivedCallback_luz lib m sender msg)
              = [SendSingle (or_zero (getMember doc ''from''))
                   (serializeJson lib (topo_doc lib (getNodeList m)))] \<and>
            mesh_sends (receivedCallback_dht lib m sender msg)
              = [SendSingle (env_from lib doc)
                   (serializeJson lib (topo_doc lib (getNodeList m)))] \<and>
            getMember (topo_doc lib (getNodeList m)) ''seq'' = None \<and>
            env_seq lib (topo_doc lib (getNodeList m)) = 0)"
proof (intro conjI impI)
  assume "has_type doc ''TOPO_REQ''"
  then show "mesh_sends (receivedCallback_luz lib m sender msg)
      = [SendSingle (or_zero (getMember doc ''from''))
           (serializeJson lib (topo_doc lib (getNodeList m)))]"
    and "mesh_sends (receivedCallback_dht lib m sender msg)
      = [SendSingle (env_from lib doc) (serializeJson lib (topo_doc lib (getNodeList m)))]"
    using assms(1)
    by (simp_all add: received_luz_decoded received_dht_decoded control_luz_topo control_dht_topo)
next
  assume "has_type doc ''PING'' \<and> env_to lib doc = getNodeId m"
  then show "mesh_sends (receivedCallback_luz lib m sender msg)
      = [SendSingle (env_from lib doc) (serializeJson lib (pong_doc S (getNodeId m)))]"
    and "mesh_sends (receivedCallback_dht lib m sender msg)
      = [SendSingle (env_from lib doc) (serializeJson lib (pong_doc S (getNodeId m)))]"
    using assms
    by (simp_all add: received_luz_decoded received_dht_decoded control_luz_ping control_dht_ping)
next
  assume "has_type doc ''TRACE'' \<and> env_to lib doc = getNodeId m"
  then have "has_type doc ''TRACE''" and "env_to lib doc = getNodeId m"
    by simp_all
  from received_trace_reply [OF assms(1) this]
  show "\<exists>hops.
       mesh_sends (receivedCallback_luz lib m sender msg)
         = [SendSingle (env_from lib doc)
              (serializeJson lib (trace_reply_doc lib S (getNodeId m) hops))] \<and>
       mesh_sends (receivedCallback_dht lib m sender msg)
         = [SendSingle (env_from lib doc)
              (serializeJson lib (trace_reply_doc lib S (getNodeId m) hops))] \<and>
       env_seq lib (trace_reply_doc lib S (getNodeId m) hops) = S"
    using assms(2)
    by (intro exI [of _ "as_JsonArray
          (getMember (member_array_add lib 512 ''hops'' (of_uint32 (getNodeId m)) doc) ''hops'')"])
      (simp add: trace_reply_doc_fields)
qed (simp_all add: pong_doc_fields topo_doc_fields)

theorem replies_echo_seq_except_topo_witness:
  "deserializeJson ex_lib 512 ex_ping_text = Some ex_ping \<and> env_seq ex_lib ex_ping = 7 \<and>
   has_type ex_ping ''PING'' \<and> env_to ex_lib ex_ping = getNodeId (ex_node 42) \<and>
   mesh_sends (receivedCallback_luz ex_lib (ex_node 42) 3 ex_ping_text)
     = [SendSingle 1 ex_pong_text] \<and>
   env_seq ex_lib (pong_doc 7 42) = 7 \<and>
   deserializeJson ex_lib 512 ex_topo_req_text = Some ex_topo_req \<and>
   env_seq ex_lib ex_topo_req = 7 \<and> has_type ex_topo_req ''TOPO_REQ'' \<and>
   mesh_sends (receivedCallback_dht ex_lib (ex_node 42) 3 ex_topo_req_text)
     = [SendSingle 1 ex_topo_text] \<and>
   getMember (topo_doc ex_lib [2, 5, 9]) ''seq'' = None"
proof -
  have me: "env_to ex_lib ex_ping = getNodeId (ex_node 42)"
    and list: "getNodeList (ex_node 42) = [2, 5, 9]" and id: "getNodeId (ex_node 42) = 42"
    and ping: "deserializeJson ex_lib 512 ex_ping_text = Some ex_ping"
    and req: "deserializeJson ex_lib 512 ex_topo_req_text = Some ex_topo_req"
    by (simp_all add: ex_ping_fields ex_node_def ex_deserialize)
  from replies_echo_seq_except_topo [OF ping ex_ping_fields(3), of "ex_node 42" 3]
    replies_echo_seq_except_topo [OF req ex_topo_req_fields(3), of "ex_node 42" 3]
  show ?thesis
    using me
    by (simp add: list id ping req ex_serialize ex_ping_fields ex_topo_req_fields ex_topo_built)
qed

text \<open>
  The claim as the specification words it fails on a TOPO_REQ: the request carries
  \<open>seq = 7\<close>, and the TOPO either firmware sends back has no \<open>seq\<close> at all.
\<close>

theorem topo_reply_drops_seq_counterexample:
  "deserializeJson ex_lib 512 ex_topo_req_text = Some ex_topo_req \<and>
   has_type ex_topo_req ''TOPO_REQ'' \<and> env_seq ex_lib ex_topo_req = 7 \<and>
   mesh_sends (receivedCallback_luz ex_lib (ex_node 42) 3 ex_topo_req_text)
     = [SendSingle 1 ex_topo_text] \<and>
   mesh_sends (receivedCallback_dht ex_lib (ex_node 42) 3 ex_topo_req_text)
     = [SendSingle 1 ex_topo_text] \<and>
   deserializeJson ex_lib 512 ex_topo_text = Some (topo_doc ex_lib [2, 5, 9]) \<and>
   has_type (topo_doc ex_lib [2, 5, 9]) ''TOPO'' \<and>
   getMember (topo_doc ex_lib [2, 5, 9]) ''seq'' = None \<and>
   env_seq ex_lib (topo_doc ex_lib [2, 5, 9]) \<noteq> 7"
proof -
  have req: "deserializeJson ex_lib 512 ex_topo_req_text = Some ex_topo_req"
    by (simp add: ex_deserialize)
  have "mesh_sends (control_luz ex_lib (ex_node 42) ex_topo_req)
          = [SendSingle 1 (topo_doc ex_lib [2, 5, 9])]"
    and "mesh_sends (control_dht ex_lib (ex_node 42) ex_topo_req)
          = [SendSingle 1 (topo_doc ex_lib [2, 5, 9])]"
    by (simp_all add: control_luz_topo control_dht_topo ex_topo_req_fields ex_node_def)
  then show ?thesis
    using req topo_doc_fields [of ex_lib "[2, 5, 9]"]
    by (simp add: received_luz_decoded received_dht_decoded ex_deserialize ex_serialize
        ex_topo_req_fields ex_topo_built)
qed

section \<open>Gateway\<close>

lemma copy_payload: "foldl (\<lambda>s b. s @ [b]) acc payload = acc @ payload"
  by (induction payload arbitrary: acc) simp_all

text \<open>
  C4. Whatever bytes the broker delivers on the control topic: when they do not
  deserialise, the gateway reports it on \<open>Serial\<close> and sends nothing into the mesh; when
  they do and \<open>to\<close> reads 0, it broadcasts them; otherwise it sends them by unicast to
  \<open>to\<close>.
\<close>

theorem control_message_enters_mesh:
  "mesh_sends (mqttCallback lib topic payload) =
     (case deserializeJson lib 200 payload of
        None \<Rightarrow> []
      | Some doc \<Rightarrow>
          if env_to lib doc = 0 then [SendBroadcast payload]
          else [SendSingle (env_to lib doc) payload]) \<and>
   (if deserializeJson lib 200 payload = None
    then mqttCallback lib topic payload =
           [Serial ''MQTT Control recibido'', Serial ''Error parseando JSON de control'']
    else True)"
  by (simp add: mqttCallback_def copy_payload mesh_sends_def env_to_def Let_def
      split: option.splits)

theorem control_message_enters_mesh_witness:
  "mesh_sends (mqttCallback ex_lib MQTT_TOPIC_CONTROL ex_ping_text)
     = [SendSingle 42 ex_ping_text] \<and>
   mesh_sends (mqttCallback ex_lib MQTT_TOPIC_CONTROL ex_topo_req_text)
     = [SendBroadcast ex_topo_req_text] \<and>
   mqttCallback ex_lib MQTT_TOPIC_CONTROL ''no json''
     = [Serial ''MQTT Control recibido'', Serial ''Error parseando JSON de control'']"
  using control_message_enters_mesh [of ex_lib MQTT_TOPIC_CONTROL ex_ping_text]
    control_message_enters_mesh [of ex_lib MQTT_TOPIC_CONTROL ex_topo_req_text]
    control_message_enters_mesh [of ex_lib MQTT_TOPIC_CONTROL "''no json''"]
  by (simp add: ex_deserialize ex_ping_fields ex_topo_req_fields)

subsection \<open>Publishing sensor data\<close>







subsection \<open>Reconnecting\<close>

lemma reconnect_loop_up: "reconnect_loop b True k tr = Some tr"
  by (subst reconnect_loop.simps) simp

lemma reconnect_loop_returns:
  "connect_at b (k + n) \<and> \<not> lost_at b (k + n) \<Longrightarrow>
   (\<forall>j<n. \<not> (connect_at b (k + j) \<and> \<not> lost_at b (k + j))) \<Longrightarrow>
   reconnect_loop b False k tr =
     Some (tr @ concat (map (\<lambda>j. Serial ''Conectando a MQTT...'' # Connect (connect_at b j) #
                                (if connect_at b j
                                 then [Serial ''MQTT Conectado!'', Subscribe MQTT_TOPIC_CONTROL,
                                       Serial ''Suscrito a control'']
                                 else [Serial ''Fallo MQTT, reintentando en 5s'', Delay 5000]))
                         [k..<Suc (k + n)]))"
proof (induction n arbitrary: k tr)
  case 0
  then show ?case
    by (subst reconnect_loop.simps) (simp add: reconnect_loop_up)
next
  case (Suc n)
  from Suc.prems(2) have now: "\<not> (connect_at b k \<and> \<not> lost_at b k)"
    by (metis add.right_neutral zero_less_Suc)
  have later: "connect_at b (Suc k + n) \<and> \<not> lost_at b (Suc k + n)"
    and before: "\<forall>j<n. \<not> (connect_at b (Suc k + j) \<and> \<not> lost_at b (Suc k + j))"
    using Suc.prems by (auto dest: spec [of _ "Suc j" for j])
  have range: "[k..<Suc (Suc (k + n))] = k # [Suc k..<Suc (Suc (k + n))]"
    using upt_conv_Cons [of k "Suc (Suc (k + n))"] by simp
  show ?case
    using now Suc.IH [OF later before]
    by (subst reconnect_loop.simps) (simp add: range del: upt_Suc)
qed

lemma reconnect_loop_Some:
  assumes "reconnect_loop b up k tr = Some out"
  shows "up \<or> (\<exists>j\<ge>k. connect_at b j \<and> \<not> lost_at b j)"
proof (rule reconnect_loop.raw_induct
    [where P = "\<lambda>b up k tr out. up \<or> (\<exists>j\<ge>k. connect_at b j \<and> \<not> lost_at b j)", OF _ assms])
  fix loop :: "broker \<Rightarrow> bool \<Rightarrow> nat \<Rightarrow> string effect list \<Rightarrow> string effect list option"
    and b up k and tr out :: "string effect list"
  assume IH: "\<And>b up k tr out. loop b up k tr = Some out \<Longrightarrow>
                up \<or> (\<exists>j\<ge>k. connect_at b j \<and> \<not> lost_at b j)"
    and body: "(if up then Some tr
                else loop b (connect_at b k \<and> \<not> lost_at b k) (Suc k)
                       (tr @
                        Serial ''Conectando a MQTT...'' # Connect (connect_at b k) #
                        (if connect_at b k
                         then [Serial ''MQTT Conectado!'', Subscribe MQTT_TOPIC_CONTROL,
                               Serial ''Suscrito a control'']
                         else [Serial ''Fallo MQTT, reintentando en 5s'', Delay 5000]))) = Some out"
  show "up \<or> (\<exists>j\<ge>k. connect_at b j \<and> \<not> lost_at b j)"
  proof (cases up)
    case True
    then show ?thesis by simp
  next
    case False
    with body IH
    have "(connect_at b k \<and> \<not> lost_at b k) \<or> (\<exists>j\<ge>Suc k. connect_at b j \<and> \<not> lost_at b j)"
      by simp
    then show ?thesis
      by (auto intro: exI [of _ k] dest: Suc_leD)
  qed
qed

text \<open>
  C10. Entered with the client connected, \<open>reconnect\<close> does nothing. Entered with the
  client disconnected, it returns exactly when some \<open>client.connect\<close> succeeds and the
  connection lasts until the next test of the loop; until then it goes on, and for ever
  when that never happens. When it returns, what it has done is one pass for each
  \<open>client.connect\<close> before the last, a subscription to the control topic after each one
  that succeeded, and then the last pass: \<open>client.connect\<close> succeeds and
  \<open>client.subscribe\<close> is called with the control topic before the loop is left.
\<close>

theorem reconnect_subscribes_after_connect:
  "reconnect b True = Some [] \<and>
   (case reconnect b False of
      None \<Rightarrow> \<forall>k. \<not> (connect_at b k \<and> \<not> lost_at b k)
    | Some trace \<Rightarrow>
        (\<exists>n. connect_at b n \<and> \<not> lost_at b n \<and>
             (\<forall>j<n. \<not> (connect_at b j \<and> \<not> lost_at b j)) \<and>
             trace =
               concat (map (\<lambda>j. if connect_at b j
                                 then [Serial ''Conectando a MQTT...'', Connect True,
                                       Serial ''MQTT Conectado!'', Subscribe MQTT_TOPIC_CONTROL,
                                       Serial ''Suscrito a control'']
                                 else [Serial ''Conectando a MQTT...'', Connect False,
                                       Serial ''Fallo MQTT, reintentando en 5s'', Delay 5000])
                         [0..<n]) @
               [Serial ''Conectando a MQTT...'', Connect True, Serial ''MQTT Conectado!'',
                Subscribe MQTT_TOPIC_CONTROL, Serial ''Suscrito a control'']))"
proof (intro conjI)
  show "reconnect b True = Some []"
    by (simp add: reconnect_def reconnect_loop_up)
next
  let ?pass = "\<lambda>j. Serial ''Conectando a MQTT...'' # Connect (connect_at b j) #
                    (if connect_at b j
                     then [Serial ''MQTT Conectado!'', Subscribe MQTT_TOPIC_CONTROL,
                           Serial ''Suscrito a control'']
                     else [Serial ''Fallo MQTT, reintentando en 5s'', Delay 5000])"
  let ?shown = "\<lambda>j. if connect_at b j
                      then [Serial ''Conectando a MQTT...'', Connect True,
                            Serial ''MQTT Conectado!'', Subscribe MQTT_TOPIC_CONTROL,
                            Serial ''Suscrito a control'']
                      else [Serial ''Conectando a MQTT...'', Connect False,
                            Serial ''Fallo MQTT, reintentando en 5s'', Delay 5000]"
  have same: "?pass = ?shown"
    by (rule ext) simp
  show "case reconnect b False of
      None \<Rightarrow> \<forall>k. \<not> (connect_at b k \<and> \<not> lost_at b k)
    | Some trace \<Rightarrow>
        (\<exists>n. connect_at b n \<and> \<not> lost_at b n \<and>
             (\<forall>j<n. \<not> (connect_at b j \<and> \<not> lost_at b j)) \<and>
             trace = concat (map ?shown [0..<n]) @
               [Serial ''Conectando a MQTT...'', Connect True, Serial ''MQTT Conectado!'',
                Subscribe MQTT_TOPIC_CONTROL, Serial ''Suscrito a control''])"
  proof (cases "\<exists>k. connect_at b k \<and> \<not> lost_at b k")
    case True
    define n where "n = (LEAST k. connect_at b k \<and> \<not> lost_at b k)"
    from True obtain k where "connect_at b k \<and> \<not> lost_at b k" ..
    then have n: "connect_at b n \<and> \<not> lost_at b n"
      unfolding n_def by (rule LeastI [of "\<lambda>k. connect_at b k \<and> \<not> lost_at b k"])
    have least: "\<forall>j<n. \<not> (connect_at b j \<and> \<not> lost_at b j)"
      unfolding n_def using not_less_Least by blast
    have "reconnect_loop b False 0 [] = Some ([] @ concat (map ?pass [0..<Suc (0 + n)]))"
      using n least by (intro reconnect_loop_returns) simp_all
    then have "reconnect b False = Some (concat (map ?shown [0..<Suc n]))"
      unfolding same by (simp add: reconnect_def del: upt_Suc)
    also have "concat (map ?shown [0..<Suc n]) =
        concat (map ?shown [0..<n]) @
          [Serial ''Conectando a MQTT...'', Connect True, Serial ''MQTT Conectado!'',
           Subscribe MQTT_TOPIC_CONTROL, Serial ''Suscrito a control'']"
      using n by simp
    finally have "reconnect b False =
        Some (concat (map ?shown [0..<n]) @
          [Serial ''Conectando a MQTT...'', Connect True, Serial ''MQTT Conectado!'',
           Subscribe MQTT_TOPIC_CONTROL, Serial ''Suscrito a control''])" .
    with n least show ?thesis
      by (auto intro!: exI [of _ n])
  next
    case False
    then have "reconnect b False = None"
      using reconnect_loop_Some [of b False 0 "[]"]
      by (cases "reconnect b False") (auto simp: reconnect_def)
    with False show ?thesis by simp
  qed
qed

lemma ex_broker_reconnect:
  "reconnect ex_broker False =
     Some [Serial ''Conectando a MQTT...'', Connect False,
           Serial ''Fallo MQTT, reintentando en 5s'', Delay 5000,
           Serial ''Conectando a MQTT...'', Connect True, Serial ''MQTT Conectado!'',
           Subscribe ''Nodos/control'', Serial ''Suscrito a control'',
           Serial ''Conectando a MQTT...'', Connect True, Serial ''MQTT Conectado!'',
           Subscribe ''Nodos/control'', Serial ''Suscrito a control'']"
  using reconnect_loop_returns [of ex_broker 0 "Suc (Suc 0)" "[]"]
  by (simp add: reconnect_def ex_broker_def MQTT_TOPIC_CONTROL_def less_Suc_eq)

theorem reconnect_subscribes_after_connect_witness:
  "reconnect ex_broker True = Some [] \<and>
   reconnect ex_broker False =
     Some [Serial ''Conectando a MQTT...'', Connect False,
           Serial ''Fallo MQTT, reintentando en 5s'', Delay 5000,
           Serial ''Conectando a MQTT...'', Connect True, Serial ''MQTT Conectado!'',
           Subscribe ''Nodos/control'', Serial ''Suscrito a control'',
           Serial ''Conectando a MQTT...'', Connect True, Serial ''MQTT Conectado!'',
           Subscribe ''Nodos/control'', Serial ''Suscrito a control'']"
  using reconnect_subscribes_after_connect [of ex_broker]
  by (simp add: ex_broker_reconnect)

end
